theory Spec2Isabelle
  imports Complex_Main
begin

section \<open>The PDF pipeline of index.py: Vision OCR, then a Gemini request\<close>

text \<open>
  The script has one function, \<open>procesar_pdf_con_vision_y_gemini\<close>. It opens a PDF,
  runs OCR on every page, joins the page texts, posts them to the Gemini endpoint and
  unwraps the nested JSON answer. Everything it talks to (PyMuPDF, Cloud Vision,
  requests) is outside the repository, so the outcome of each external call is an input
  of the model, collected in the record \<open>world\<close>. Python strings are \<open>string\<close>s holding
  their UTF-8 encoding; the accented letters of the source's messages are written as
  their two bytes.
\<close>

subsection \<open>Python values and exceptions\<close>

text \<open>The values \<open>response.json()\<close> can produce. A dict is an association list, looked
  up with \<open>map_of\<close>.\<close>

datatype json =
    JNull
  | JBool bool
  | JInt int
  | JFloat real
  | JStr string
  | JArr "json list"
  | JObj "(string \<times> json) list"

text \<open>The exception classes the function distinguishes. All of them are instances of
  Python's \<open>Exception\<close>. \<open>HTTPError\<close> is a subclass of \<open>RequestException\<close>, and
  \<open>RequestException\<close> stands for it and its other subclasses (\<open>ConnectionError\<close>,
  \<open>Timeout\<close>). \<open>RequestsJSONDecodeError\<close> is the class the requests library
  raises from \<open>json()\<close> since version 2.27: it inherits from both \<open>RequestException\<close> and
  \<open>json.JSONDecodeError\<close>.\<close>

datatype exn_class =
    FitzFileNotFoundError
  | RequestException
  | HTTPError
  | RequestsJSONDecodeError
  | JSONDecodeError
  | KeyError
  | IndexError
  | TypeError
  | AttributeError
  | UnboundLocalError
  | OtherException

datatype exn = Exn (exn_class: exn_class) (exn_msg: string)

definition is_RequestException :: "exn \<Rightarrow> bool" where
  "is_RequestException e =
     (exn_class e = RequestException \<or> exn_class e = HTTPError \<or> exn_class e = RequestsJSONDecodeError)"

definition is_JSONDecodeError :: "exn \<Rightarrow> bool" where
  "is_JSONDecodeError e = (exn_class e = JSONDecodeError \<or> exn_class e = RequestsJSONDecodeError)"

definition is_shape_error :: "exn \<Rightarrow> bool" where
  "is_shape_error e = (exn_class e = KeyError \<or> exn_class e = IndexError \<or> exn_class e = TypeError)"

text \<open>How a block of the function ends: it falls through with a value, executes
  \<open>return\<close>, or raises.\<close>

datatype 'a flow = Normal 'a | Return json | Raise exn

text \<open>What the run does to the outside, in order.\<close>

record request =
  req_url :: string
  req_key :: string
  req_text :: string

datatype event = Print string | DocClose | HttpPost request

subsection \<open>Strings\<close>

definition nl :: string where
  "nl = [CHR 0x0A]"

definition a_acute :: string where
  "a_acute = [CHR 0xC3, CHR 0xA1]"

definition o_acute :: string where
  "o_acute = [CHR 0xC3, CHR 0xB3]"

definition quote :: string where
  "quote = [CHR 0x27]"

definition digit_char :: "nat \<Rightarrow> char" where
  "digit_char d = char_of (48 + d)"

fun str_nat :: "nat \<Rightarrow> string" where
  "str_nat n = (if n < 10 then [digit_char n] else str_nat (n div 10) @ [digit_char (n mod 10)])"

declare str_nat.simps [simp del]

definition str_int :: "int \<Rightarrow> string" where
  "str_int i = (if i < 0 then ''-'' @ str_nat (nat (- i)) else str_nat (nat i))"

text \<open>\<open>sep.join(xs)\<close>.\<close>

fun join_str :: "string \<Rightarrow> string list \<Rightarrow> string" where
  "join_str sep [] = []"
| "join_str sep [x] = x"
| "join_str sep (x # y # ys) = x @ sep @ join_str sep (y # ys)"

text \<open>The first character of a string: its first byte and the UTF-8 continuation
  bytes that follow.\<close>

definition is_continuation :: "char \<Rightarrow> bool" where
  "is_continuation c = (128 \<le> (of_char c :: nat) \<and> (of_char c :: nat) < 192)"

fun first_char :: "string \<Rightarrow> string" where
  "first_char [] = []"
| "first_char (c # cs) = c # takeWhile is_continuation cs"

subsection \<open>The operations of Python on parsed JSON\<close>

fun type_name :: "json \<Rightarrow> string" where
  "type_name JNull = ''NoneType''"
| "type_name (JBool b) = ''bool''"
| "type_name (JInt i) = ''int''"
| "type_name (JFloat r) = ''float''"
| "type_name (JStr s) = ''str''"
| "type_name (JArr xs) = ''list''"
| "type_name (JObj kvs) = ''dict''"

text \<open>\<open>if x:\<close>\<close>

fun truthy :: "json \<Rightarrow> bool" where
  "truthy JNull = False"
| "truthy (JBool b) = b"
| "truthy (JInt i) = (i \<noteq> 0)"
| "truthy (JFloat r) = (r \<noteq> 0)"
| "truthy (JStr s) = (s \<noteq> [])"
| "truthy (JArr xs) = (xs \<noteq> [])"
| "truthy (JObj kvs) = (kvs \<noteq> [])"

definition not_subscriptable :: "json \<Rightarrow> exn" where
  "not_subscriptable x = Exn TypeError (quote @ type_name x @ quote @ '' object is not subscriptable'')"

text \<open>\<open>x.get(k, d)\<close>: only a dict has the method.\<close>

fun py_get :: "json \<Rightarrow> string \<Rightarrow> json \<Rightarrow> exn + json" where
  "py_get (JObj kvs) k d = (case map_of kvs k of Some v \<Rightarrow> Inr v | None \<Rightarrow> Inr d)"
| "py_get x k d =
     Inl (Exn AttributeError (quote @ type_name x @ quote @ '' object has no attribute '' @ quote @ ''get'' @ quote))"

text \<open>\<open>x[0]\<close>\<close>

fun py_index0 :: "json \<Rightarrow> exn + json" where
  "py_index0 (JArr []) = Inl (Exn IndexError ''list index out of range'')"
| "py_index0 (JArr (x # xs)) = Inr x"
| "py_index0 (JStr []) = Inl (Exn IndexError ''string index out of range'')"
| "py_index0 (JStr (c # cs)) = Inr (JStr (first_char (c # cs)))"
| "py_index0 (JObj kvs) = Inl (Exn KeyError ''0'')"
| "py_index0 x = Inl (not_subscriptable x)"

text \<open>\<open>x[k]\<close> for a string key \<open>k\<close>\<close>

fun py_item :: "json \<Rightarrow> string \<Rightarrow> exn + json" where
  "py_item (JObj kvs) k = (case map_of kvs k of Some v \<Rightarrow> Inr v | None \<Rightarrow> Inl (Exn KeyError (quote @ k @ quote)))"
| "py_item (JArr xs) k = Inl (Exn TypeError ''list indices must be integers or slices, not str'')"
| "py_item (JStr s) k = Inl (Exn TypeError (''string indices must be integers, not '' @ quote @ ''str'' @ quote))"
| "py_item x k = Inl (not_subscriptable x)"

subsection \<open>The outside world\<close>

text \<open>The answer of Cloud Vision for one page: \<open>response_vision.error.message\<close> and the
  text of \<open>response_vision.full_text_annotation\<close>, \<open>None\<close> when the annotation is falsy.\<close>

record vision_response =
  error_message :: string
  full_text_annotation :: "string option"

text \<open>What lines 45 to 55 do for one page: some call raises, or Vision answers.\<close>

datatype page_outcome = PageRaises exn | PageAnswer vision_response

text \<open>A response of requests: the message of the \<open>HTTPError\<close> that
  \<open>raise_for_status()\<close> raises, \<open>None\<close> when it returns; what \<open>json()\<close> raises or returns; \<open>status_code\<close> and \<open>text\<close> (here \<open>response_text\<close>).\<close>

record response =
  raise_for_status :: "string option"
  json_body :: "exn + json"
  status_code :: int
  response_text :: string

text \<open>\<open>fitz_open\<close> is \<open>fitz.open\<close> followed by the pages' outcomes, in page order;
  \<open>requests_post\<close> is \<open>requests.post\<close>; \<open>py_str\<close> is the interpreter's \<open>str()\<close> of a
  parsed JSON value, which an f-string uses.\<close>

record world =
  fitz_open :: "string \<Rightarrow> exn + page_outcome list"
  requests_post :: "request \<Rightarrow> exn + response"
  py_str :: "json \<Rightarrow> string"

subsection \<open>The function\<close>

definition GEMINI_API_URL :: string where
  "GEMINI_API_URL = ''https://generativelanguage.googleapis.com/v1beta/models/gemini-1.5-flash:generateContent''"

text \<open>Lines 33 to 38.\<close>

definition abrir_pdf :: "world \<Rightarrow> string \<Rightarrow> page_outcome list flow" where
  "abrir_pdf w pdf_path =
     (case fitz_open w pdf_path of
        Inr doc \<Rightarrow> Normal doc
      | Inl e \<Rightarrow>
          if exn_class e = FitzFileNotFoundError
          then Return (JStr (''Error: No se encontr'' @ o_acute @ '' el archivo PDF en la ruta: '' @ pdf_path))
          else Return (JStr (''Error al abrir el PDF: '' @ exn_msg e)))"

text \<open>One turn of the loop of lines 43 to 69, for page \<open>page_num\<close>: the new
  \<open>textos_por_pagina\<close> and what is printed.\<close>

definition pagina :: "page_outcome \<Rightarrow> nat \<Rightarrow> string list \<Rightarrow> string list \<times> event list" where
  "pagina p page_num textos =
     (case p of
        PageRaises e \<Rightarrow>
          (textos, [Print (''Error al procesar la p'' @ a_acute @ ''gina '' @ str_nat (page_num + 1) @ '': '' @ exn_msg e)])
      | PageAnswer response_vision \<Rightarrow>
          if error_message response_vision \<noteq> []
          then (textos, [Print (''Advertencia: Error en OCR de la p'' @ a_acute @ ''gina '' @ str_nat (page_num + 1)
                                @ '': '' @ error_message response_vision)])
          else (case full_text_annotation response_vision of
                  Some t \<Rightarrow>
                    if t \<noteq> [] then (textos @ [t], [])
                    else (textos, [Print (''Advertencia: No se pudo extraer texto de la p'' @ a_acute @ ''gina ''
                                          @ str_nat (page_num + 1) @ ''.'')])
                | None \<Rightarrow>
                    (textos, [Print (''Advertencia: No se pudo extraer texto de la p'' @ a_acute @ ''gina ''
                                     @ str_nat (page_num + 1) @ ''.'')])))"

text \<open>The loop, from page \<open>page_num\<close> on.\<close>

fun paginas :: "page_outcome list \<Rightarrow> nat \<Rightarrow> string list \<Rightarrow> event list \<Rightarrow> string list \<times> event list" where
  "paginas [] page_num textos trace = (textos, trace)"
| "paginas (p # ps) page_num textos trace =
     (case pagina p page_num textos of
        (textos', out) \<Rightarrow> paginas ps (page_num + 1) textos' (trace @ out))"

text \<open>\<open>textos_por_pagina\<close> after the loop, and \<open>texto_completo\<close> (line 73).\<close>

definition textos_por_pagina :: "page_outcome list \<Rightarrow> string list" where
  "textos_por_pagina doc = fst (paginas doc 0 [] [])"

definition texto_completo :: "page_outcome list \<Rightarrow> string" where
  "texto_completo doc = join_str (nl @ nl) (textos_por_pagina doc)"

text \<open>The message of the \<open>UnboundLocalError\<close> that CPython 3.11 raises when a local
  variable is read before it was assigned.\<close>

definition unbound_msg :: string where
  "unbound_msg = ''cannot access local variable '' @ quote @ ''response_gemini'' @ quote
                 @ '' where it is not associated with a value''"

text \<open>The handler of lines 93 to 100. \<open>response_gemini\<close> is \<open>None\<close> here when the
  local variable was never assigned, i.e. when \<open>requests.post\<close> itself raised; reading it
  then raises. A response object is never Python's \<open>None\<close>, so line 100 is not reached.\<close>

definition manejar_error_solicitud :: "world \<Rightarrow> response option \<Rightarrow> exn \<Rightarrow> json flow" where
  "manejar_error_solicitud w response_gemini e =
     (if \<not> is_RequestException e then Raise e
      else case response_gemini of
             None \<Rightarrow> Raise (Exn UnboundLocalError unbound_msg)
           | Some r \<Rightarrow>
               (case json_body r of
                  Inr error_data \<Rightarrow>
                    Return (JStr (''Error en la solicitud a la API de Gemini: '' @ exn_msg e @ nl
                                  @ ''Detalles del error: '' @ py_str w error_data))
                | Inl e2 \<Rightarrow>
                    if is_JSONDecodeError e2
                    then Return (JStr (''Error en la solicitud a la API de Gemini: '' @ exn_msg e @ nl
                                       @ ''C'' @ o_acute @ ''digo de estado: '' @ str_int (status_code r) @ nl
                                       @ ''Respuesta (no JSON): '' @ response_text r))
                    else Raise e2))"

text \<open>Lines 89 to 100 for the request body \<open>data\<close>: the parsed answer, or the
  \<open>return\<close> of the handler, or an exception on its way to line 117.\<close>

definition solicitar_gemini :: "world \<Rightarrow> request \<Rightarrow> json flow" where
  "solicitar_gemini w data =
     (case requests_post w data of
        Inl e \<Rightarrow> manejar_error_solicitud w None e
      | Inr r \<Rightarrow>
          (case raise_for_status r of
             Some m \<Rightarrow> manejar_error_solicitud w (Some r) (Exn HTTPError m)
           | None \<Rightarrow>
               (case json_body r of
                  Inl e \<Rightarrow> manejar_error_solicitud w (Some r) e
                | Inr response_json \<Rightarrow> Normal response_json)))"

text \<open>The two messages of lines 110 and 112.\<close>

definition sin_parts :: string where
  "sin_parts = ''Error: Respuesta de Gemini sin '' @ quote @ ''parts'' @ quote @ ''.''"

definition sin_candidates :: string where
  "sin_candidates = ''Error: Respuesta de Gemini sin '' @ quote @ ''candidates'' @ quote @ ''.''"

text \<open>Lines 104 to 112, the body of the inner \<open>try\<close>.\<close>

definition extraer_respuesta :: "json \<Rightarrow> exn + json" where
  "extraer_respuesta response_json =
     (case py_get response_json ''candidates'' (JArr []) of
        Inl e \<Rightarrow> Inl e
      | Inr candidates \<Rightarrow>
          if truthy candidates then
            (case py_index0 candidates of
               Inl e \<Rightarrow> Inl e
             | Inr c0 \<Rightarrow>
                 (case py_item c0 ''content'' of
                    Inl e \<Rightarrow> Inl e
                  | Inr content \<Rightarrow>
                      (case py_get content ''parts'' (JArr []) of
                         Inl e \<Rightarrow> Inl e
                       | Inr parts \<Rightarrow>
                           if truthy parts then
                             (case py_index0 parts of
                                Inl e \<Rightarrow> Inl e
                              | Inr p0 \<Rightarrow> py_get p0 ''text'' (JStr ''Respuesta de Gemini sin texto.''))
                           else Inr (JStr sin_parts))))
          else Inr (JStr sin_candidates))"

text \<open>Lines 103 to 115: the inner \<open>try\<close> with its handler for \<open>KeyError\<close>,
  \<open>IndexError\<close> and \<open>TypeError\<close>.\<close>

definition procesar_respuesta :: "world \<Rightarrow> json \<Rightarrow> (exn + json) \<times> event list" where
  "procesar_respuesta w response_json =
     (case extraer_respuesta response_json of
        Inr v \<Rightarrow> (Inr v, [])
      | Inl e \<Rightarrow>
          if is_shape_error e
          then (Inr (JStr (''Respuesta completa de Gemini (para depuraci'' @ o_acute @ ''n):'' @ nl @ py_str w response_json)),
                [Print (''Error al procesar la respuesta de Gemini (formato inesperado): '' @ exn_msg e)])
          else (Inl e, []))"

definition sin_texto :: string where
  "sin_texto = ''Advertencia: No se pudo extraer texto de ninguna p'' @ a_acute @ ''gina del PDF.''"

text \<open>Lines 32 to 115, the body of the outer \<open>try\<close>: the value returned or the
  exception that reaches line 117, and the trace.\<close>

definition cuerpo :: "world \<Rightarrow> string \<Rightarrow> string \<Rightarrow> string \<Rightarrow> (exn + json) \<times> event list" where
  "cuerpo w api_key pdf_path prompt_gemini =
     (case abrir_pdf w pdf_path of
        Return v \<Rightarrow> (Inr v, [])
      | Raise e \<Rightarrow> (Inl e, [])
      | Normal doc \<Rightarrow>
          (case paginas doc 0 [] [] of
             (textos, trace) \<Rightarrow>
               if join_str (nl @ nl) textos = [] then (Inr (JStr sin_texto), trace @ [DocClose])
               else
                 (let data = \<lparr>req_url = GEMINI_API_URL, req_key = api_key,
                               req_text = prompt_gemini @ join_str (nl @ nl) textos\<rparr>
                  in case solicitar_gemini w data of
                       Return v \<Rightarrow> (Inr v, trace @ [DocClose, HttpPost data])
                     | Raise e \<Rightarrow> (Inl e, trace @ [DocClose, HttpPost data])
                     | Normal response_json \<Rightarrow>
                         (case procesar_respuesta w response_json of
                            (r, out) \<Rightarrow> (r, trace @ [DocClose, HttpPost data] @ out)))))"

text \<open>The function: the body under \<open>except Exception\<close> of lines 117 and 118. The
  result is \<open>Inl\<close> when an exception leaves the function.\<close>

definition procesar_pdf_con_vision_y_gemini ::
  "world \<Rightarrow> string \<Rightarrow> string \<Rightarrow> string \<Rightarrow> (exn + json) \<times> event list" where
  "procesar_pdf_con_vision_y_gemini w api_key pdf_path prompt_gemini =
     (case cuerpo w api_key pdf_path prompt_gemini of
        (Inr v, trace) \<Rightarrow> (Inr v, trace)
      | (Inl e, trace) \<Rightarrow> (Inr (JStr (''Error general al procesar el PDF: '' @ exn_msg e)), trace))"

definition resultado :: "world \<Rightarrow> string \<Rightarrow> string \<Rightarrow> string \<Rightarrow> exn + json" where
  "resultado w api_key pdf_path prompt_gemini = fst (procesar_pdf_con_vision_y_gemini w api_key pdf_path prompt_gemini)"

definition traza :: "world \<Rightarrow> string \<Rightarrow> string \<Rightarrow> string \<Rightarrow> event list" where
  "traza w api_key pdf_path prompt_gemini = snd (procesar_pdf_con_vision_y_gemini w api_key pdf_path prompt_gemini)"

definition is_post :: "event \<Rightarrow> bool" where
  "is_post ev = (case ev of HttpPost d \<Rightarrow> True | _ \<Rightarrow> False)"

text \<open>\<open>isinstance(v, str)\<close>\<close>

definition is_str :: "json \<Rightarrow> bool" where
  "is_str v = (case v of JStr s \<Rightarrow> True | _ \<Rightarrow> False)"

text \<open>The request body of line 83 for a document.\<close>

definition data_de :: "string \<Rightarrow> string \<Rightarrow> page_outcome list \<Rightarrow> request" where
  "data_de api_key prompt_gemini doc =
     \<lparr>req_url = GEMINI_API_URL, req_key = api_key, req_text = prompt_gemini @ texto_completo doc\<rparr>"

text \<open>The run opens the document \<open>doc\<close>, extracts some text and gets the response
  \<open>r\<close> from \<open>requests.post\<close>.\<close>

definition obtiene_respuesta ::
  "world \<Rightarrow> string \<Rightarrow> string \<Rightarrow> string \<Rightarrow> page_outcome list \<Rightarrow> response \<Rightarrow> bool" where
  "obtiene_respuesta w api_key pdf_path prompt_gemini doc r =
     (fitz_open w pdf_path = Inr doc \<and> texto_completo doc \<noteq> []
      \<and> requests_post w (data_de api_key prompt_gemini doc) = Inr r)"

text \<open>What the loop over the pages prints.\<close>

definition traza_paginas :: "page_outcome list \<Rightarrow> event list" where
  "traza_paginas doc = snd (paginas doc 0 [] [])"

subsection \<open>The aggregated text as the specification words it\<close>

text \<open>\<open>T1 + "\n\n" + T2 + ... + "\n\n" + Tn\<close>, added up from the left.\<close>

definition texto_agregado_spec :: "string list \<Rightarrow> string" where
  "texto_agregado_spec ts =
     (case ts of [] \<Rightarrow> [] | t1 # rest \<Rightarrow> foldl (\<lambda>acc t. acc @ nl @ nl @ t) t1 rest)"

subsection \<open>Concrete runs\<close>

text \<open>A page on which OCR succeeds with the text \<open>t\<close>, and a page for which Vision
  reports the error \<open>m\<close>.\<close>

definition pagina_con_texto :: "string \<Rightarrow> page_outcome" where
  "pagina_con_texto t = PageAnswer \<lparr>error_message = [], full_text_annotation = Some t\<rparr>"

definition pagina_con_error :: "string \<Rightarrow> page_outcome" where
  "pagina_con_error m = PageAnswer \<lparr>error_message = m, full_text_annotation = None\<rparr>"

definition respuesta_200 :: "json \<Rightarrow> response" where
  "respuesta_200 j = \<lparr>raise_for_status = None, json_body = Inr j, status_code = 200, response_text = []\<rparr>"

definition mundo :: "page_outcome list \<Rightarrow> exn + response \<Rightarrow> world" where
  "mundo doc r = \<lparr>fitz_open = (\<lambda>path. Inr doc), requests_post = (\<lambda>d. r), py_str = (\<lambda>j. ''<json>'')\<rparr>"

definition una_pagina :: "page_outcome list" where
  "una_pagina = [pagina_con_texto ''Ativo total 100'']"

text \<open>\<open>{"candidates": [{"content": {"parts": [p]}}]}\<close>\<close>

definition respuesta_con_parte :: "json \<Rightarrow> json" where
  "respuesta_con_parte p =
     JObj [(''candidates'', JArr [JObj [(''content'', JObj [(''parts'', JArr [p])])]])]"

text \<open>\<open>{"candidates": [{"finishReason": "SAFETY"}]}\<close>\<close>

definition respuesta_sin_content :: json where
  "respuesta_sin_content = JObj [(''candidates'', JArr [JObj [(''finishReason'', JStr ''SAFETY'')]])]"

definition tres_paginas :: "page_outcome list" where
  "tres_paginas = [pagina_con_texto ''Balance'', pagina_con_error ''quota'', pagina_con_texto ''Ativo total 100'']"


section \<open>Properties\<close>

subsection \<open>The loop over the pages\<close>

lemma pagina_fst: "fst (pagina p n textos) = textos @ fst (pagina p m [])"
  by (simp add: pagina_def split: page_outcome.splits option.splits)

lemma paginas_fst: "fst (paginas ps n textos tr) = textos @ fst (paginas ps m [] tr')"
proof (induction ps arbitrary: n m textos tr tr')
  case Nil
  then show ?case by simp
next
  case (Cons p ps)
  obtain t1 o1 where p1: "pagina p n textos = (t1, o1)" by (cases "pagina p n textos")
  obtain t2 o2 where p2: "pagina p m [] = (t2, o2)" by (cases "pagina p m []")
  have t: "t1 = textos @ t2" using pagina_fst [of p n textos m] p1 p2 by simp
  have a: "fst (paginas ps (n + 1) t1 (tr @ o1)) = t1 @ fst (paginas ps 0 [] [])"
    by (rule Cons.IH)
  have b: "fst (paginas ps (m + 1) t2 (tr' @ o2)) = t2 @ fst (paginas ps 0 [] [])"
    by (rule Cons.IH)
  show ?case using a b t p1 p2 by simp
qed

lemma paginas_append:
  "paginas (ps @ qs) n textos tr =
     (case paginas ps n textos tr of (ts, tr') \<Rightarrow> paginas qs (n + length ps) ts tr')"
proof (induction ps arbitrary: n textos tr)
  case Nil
  then show ?case by simp
next
  case (Cons p ps)
  then show ?case by (simp split: prod.splits)
qed

lemma pagina_no_vacio:
  "\<forall>t \<in> set textos. t \<noteq> [] \<Longrightarrow> \<forall>t \<in> set (fst (pagina p n textos)). t \<noteq> []"
  by (auto simp add: pagina_def split: page_outcome.splits option.splits)

lemma paginas_no_vacio:
  "\<forall>t \<in> set textos. t \<noteq> [] \<Longrightarrow> \<forall>t \<in> set (fst (paginas ps n textos tr)). t \<noteq> []"
proof (induction ps arbitrary: n textos tr)
  case Nil
  then show ?case by simp
next
  case (Cons p ps)
  obtain t1 o1 where p1: "pagina p n textos = (t1, o1)" by (cases "pagina p n textos")
  have "\<forall>t \<in> set t1. t \<noteq> []" using pagina_no_vacio [OF Cons.prems, of p n] p1 by simp
  from Cons.IH [OF this] show ?case using p1 by simp
qed

lemma pagina_no_post: "\<forall>ev \<in> set (snd (pagina p n textos)). \<not> is_post ev"
  by (auto simp add: pagina_def is_post_def split: page_outcome.splits option.splits)

lemma paginas_no_post:
  "\<forall>ev \<in> set tr. \<not> is_post ev \<Longrightarrow> \<forall>ev \<in> set (snd (paginas ps n textos tr)). \<not> is_post ev"
proof (induction ps arbitrary: n textos tr)
  case Nil
  then show ?case by simp
next
  case (Cons p ps)
  obtain t1 o1 where p1: "pagina p n textos = (t1, o1)" by (cases "pagina p n textos")
  have "\<forall>ev \<in> set (tr @ o1). \<not> is_post ev"
    using Cons.prems pagina_no_post [of p n textos] p1 by auto
  from Cons.IH [OF this] show ?case using p1 by simp
qed

lemma join_str_vacio:
  "\<forall>t \<in> set ts. t \<noteq> [] \<Longrightarrow> (join_str sep ts = []) = (ts = [])"
  by (induction sep ts rule: join_str.induct) auto

lemma textos_no_vacios: "\<forall>t \<in> set (textos_por_pagina doc). t \<noteq> []"
  unfolding textos_por_pagina_def by (rule paginas_no_vacio) simp

lemma texto_completo_vacio: "(texto_completo doc = []) = (textos_por_pagina doc = [])"
  unfolding texto_completo_def by (rule join_str_vacio) (rule textos_no_vacios)

lemma traza_paginas_no_post: "\<forall>ev \<in> set (traza_paginas doc). \<not> is_post ev"
  unfolding traza_paginas_def by (rule paginas_no_post) simp

lemma join_str_append_head: "join_str sep ((a @ b) # rest) = a @ join_str sep (b # rest)"
  by (cases rest) simp_all

lemma foldl_join_str: "foldl (\<lambda>acc t. acc @ sep @ t) t1 rest = join_str sep (t1 # rest)"
proof (induction rest arbitrary: t1)
  case Nil
  then show ?case by simp
next
  case (Cons r rest)
  have "foldl (\<lambda>acc t. acc @ sep @ t) (t1 @ sep @ r) rest = join_str sep ((t1 @ sep @ r) # rest)"
    by (rule Cons.IH)
  also have "\<dots> = t1 @ sep @ join_str sep (r # rest)"
    using join_str_append_head [of sep "t1 @ sep" r rest] join_str_append_head [of sep t1 "sep @ r" rest]
    by simp
  finally show ?case by simp
qed

lemma texto_agregado_spec_join: "texto_agregado_spec ts = join_str (nl @ nl) ts"
proof (cases ts)
  case Nil
  then show ?thesis by (simp add: texto_agregado_spec_def)
next
  case (Cons t1 rest)
  then show ?thesis
    using foldl_join_str [of "nl @ nl" t1 rest] by (simp add: texto_agregado_spec_def)
qed

lemma paginas_con_texto:
  "\<forall>t \<in> set ts. t \<noteq> [] \<Longrightarrow> paginas (map pagina_con_texto ts) n acc tr = (acc @ ts, tr)"
proof (induction ts arbitrary: n acc tr)
  case Nil
  then show ?case by simp
next
  case (Cons t ts)
  have p: "pagina (pagina_con_texto t) n acc = (acc @ [t], [])"
    using Cons.prems by (simp add: pagina_def pagina_con_texto_def)
  have "paginas (map pagina_con_texto ts) (n + 1) (acc @ [t]) tr = ((acc @ [t]) @ ts, tr)"
    using Cons.prems by (intro Cons.IH) simp
  then show ?case using p by simp
qed

subsection \<open>The function after the document was opened\<close>

lemma cuerpo_abierto:
  assumes "fitz_open w pdf_path = Inr doc"
  shows "cuerpo w k pdf_path q =
     (if texto_completo doc = [] then (Inr (JStr sin_texto), traza_paginas doc @ [DocClose])
      else case solicitar_gemini w (data_de k q doc) of
             Return v \<Rightarrow> (Inr v, traza_paginas doc @ [DocClose, HttpPost (data_de k q doc)])
           | Raise e \<Rightarrow> (Inl e, traza_paginas doc @ [DocClose, HttpPost (data_de k q doc)])
           | Normal rj \<Rightarrow> (fst (procesar_respuesta w rj),
                           traza_paginas doc @ [DocClose, HttpPost (data_de k q doc)] @ snd (procesar_respuesta w rj)))"
  using assms
  by (simp add: cuerpo_def abrir_pdf_def texto_completo_def textos_por_pagina_def traza_paginas_def
        data_de_def Let_def split: prod.splits flow.splits)

lemma traza_cuerpo: "traza w k p q = snd (cuerpo w k p q)"
  by (cases "cuerpo w k p q")
     (simp add: traza_def procesar_pdf_con_vision_y_gemini_def split: sum.splits)

lemma resultado_cuerpo:
  "resultado w k p q =
     (case fst (cuerpo w k p q) of
        Inr v \<Rightarrow> Inr v
      | Inl e \<Rightarrow> Inr (JStr (''Error general al procesar el PDF: '' @ exn_msg e)))"
  by (cases "cuerpo w k p q")
     (simp add: resultado_def procesar_pdf_con_vision_y_gemini_def split: sum.splits)

lemma traza_sin_abrir:
  assumes "fitz_open w pdf_path = Inl e"
  shows "traza w k pdf_path q = []"
  using assms
  by (simp add: traza_cuerpo cuerpo_def abrir_pdf_def)

lemma abierto_sin_texto_o_llamada:
  assumes "fitz_open w pdf_path = Inr doc"
  shows "if textos_por_pagina doc = []
         then resultado w k pdf_path q = Inr (JStr sin_texto) \<and> \<not> list_ex is_post (traza w k pdf_path q)
         else texto_completo doc \<noteq> [] \<and> list_ex is_post (traza w k pdf_path q)"
proof (cases "textos_por_pagina doc = []")
  case True
  then have e: "texto_completo doc = []" by (simp add: texto_completo_vacio)
  have c: "cuerpo w k pdf_path q = (Inr (JStr sin_texto), traza_paginas doc @ [DocClose])"
    using cuerpo_abierto [OF assms, of k q] e by simp
  have "\<not> list_ex is_post (traza_paginas doc @ [DocClose])"
    using traza_paginas_no_post [of doc] by (simp add: list_ex_iff is_post_def)
  then show ?thesis
    using True c by (simp add: resultado_cuerpo traza_cuerpo)
next
  case False
  then have e: "texto_completo doc \<noteq> []" by (simp add: texto_completo_vacio)
  have p: "is_post (HttpPost (data_de k q doc))" by (simp add: is_post_def)
  have "list_ex is_post (snd (cuerpo w k pdf_path q))"
    using cuerpo_abierto [OF assms, of k q] e p
    by (simp add: list_ex_iff split: flow.splits)
  then have "list_ex is_post (traza w k pdf_path q)"
    by (simp add: traza_cuerpo)
  then show ?thesis using False e by simp
qed

lemma resultado_respuesta:
  assumes "obtiene_respuesta w k p q doc r" and "raise_for_status r = None" and "json_body r = Inr rj"
  shows "resultado w k p q = 
     (case extraer_respuesta rj of
        Inr v \<Rightarrow> Inr v
      | Inl e \<Rightarrow>
          if is_shape_error e
          then Inr (JStr (''Respuesta completa de Gemini (para depuraci'' @ o_acute @ ''n):'' @ nl @ py_str w rj))
          else Inr (JStr (''Error general al procesar el PDF: '' @ exn_msg e)))"
proof -
  have o: "fitz_open w p = Inr doc" and t: "texto_completo doc \<noteq> []"
    and r: "requests_post w (data_de k q doc) = Inr r"
    using assms(1) by (simp_all add: obtiene_respuesta_def)
  have s: "solicitar_gemini w (data_de k q doc) = Normal rj"
    using r assms(2,3) by (simp add: solicitar_gemini_def)
  have "fst (cuerpo w k p q) = fst (procesar_respuesta w rj)"
    using cuerpo_abierto [OF o, of k q] t s by simp
  then show ?thesis
    by (simp add: resultado_cuerpo procesar_respuesta_def split: sum.splits)
qed

subsection \<open>Values that are not strings\<close>

lemma py_get_Inr: "py_get x key d = Inr v \<Longrightarrow> \<exists>kvs. x = JObj kvs \<and> (map_of kvs key = Some v \<or> (map_of kvs key = None \<and> v = d))"
  by (cases x) (auto split: option.splits)

lemma py_item_Inr: "py_item x key = Inr v \<Longrightarrow> \<exists>kvs. x = JObj kvs \<and> map_of kvs key = Some v"
  by (cases x) (auto simp add: not_subscriptable_def split: option.splits)

lemma py_index0_Inr:
  "py_index0 x = Inr v \<Longrightarrow> (\<exists>xs. x = JArr (v # xs)) \<or> (\<exists>s. x = JStr s \<and> is_str v)"
  by (cases x rule: py_index0.cases) (auto simp add: not_subscriptable_def is_str_def)

lemma extraer_no_str:
  assumes "extraer_respuesta rj = Inr v" and "\<not> is_str v"
  shows "\<exists>kvs c0 cs content p0 ps.
           rj = JObj kvs \<and> map_of kvs ''candidates'' = Some (JArr (JObj c0 # cs))
         \<and> map_of c0 ''content'' = Some (JObj content)
         \<and> map_of content ''parts'' = Some (JArr (JObj p0 # ps))
         \<and> map_of p0 ''text'' = Some v"
proof -
  obtain cand where 1: "py_get rj ''candidates'' (JArr []) = Inr cand"
    using assms(1) by (cases "py_get rj ''candidates'' (JArr [])") (simp_all add: extraer_respuesta_def)
  have 2: "truthy cand"
    using assms 1 by (auto simp add: extraer_respuesta_def is_str_def split: if_splits)
  obtain c where 3: "py_index0 cand = Inr c"
    using assms(1) 1 2 by (cases "py_index0 cand") (simp_all add: extraer_respuesta_def)
  obtain content where 4: "py_item c ''content'' = Inr content"
    using assms(1) 1 2 3 by (cases "py_item c ''content''") (simp_all add: extraer_respuesta_def)
  obtain parts where 5: "py_get content ''parts'' (JArr []) = Inr parts"
    using assms(1) 1 2 3 4
    by (cases "py_get content ''parts'' (JArr [])") (simp_all add: extraer_respuesta_def)
  have 6: "truthy parts"
    using assms 1 2 3 4 5 by (auto simp add: extraer_respuesta_def is_str_def split: if_splits)
  obtain part where 7: "py_index0 parts = Inr part"
    using assms(1) 1 2 3 4 5 6 by (cases "py_index0 parts") (simp_all add: extraer_respuesta_def)
  have 8: "py_get part ''text'' (JStr ''Respuesta de Gemini sin texto.'') = Inr v"
    using assms(1) 1 2 3 4 5 6 7 by (simp add: extraer_respuesta_def)
  obtain pkv where p: "part = JObj pkv" and pt: "map_of pkv ''text'' = Some v"
    using py_get_Inr [OF 8] assms(2) by (auto simp add: is_str_def)
  obtain ps where ps: "parts = JArr (part # ps)"
    using py_index0_Inr [OF 7] p by (auto simp add: is_str_def)
  obtain ckv where c: "content = JObj ckv" and cp: "map_of ckv ''parts'' = Some parts"
    using py_get_Inr [OF 5] ps by auto
  obtain c0 where c0: "c = JObj c0" and cc: "map_of c0 ''content'' = Some content"
    using py_item_Inr [OF 4] by auto
  obtain cs where cs: "cand = JArr (c # cs)"
    using py_index0_Inr [OF 3] c0 by (auto simp add: is_str_def)
  obtain kvs where k: "rj = JObj kvs" and kc: "map_of kvs ''candidates'' = Some cand"
    using py_get_Inr [OF 1] cs by auto
  show ?thesis using k kc cs c0 cc c cp ps p pt by blast
qed

lemma procesar_respuesta_no_str:
  assumes "fst (procesar_respuesta w rj) = Inr v" and "\<not> is_str v"
  shows "extraer_respuesta rj = Inr v"
  using assms
  by (cases "extraer_respuesta rj") (auto simp add: procesar_respuesta_def is_str_def split: if_splits)

lemma solicitar_gemini_Return_str: "solicitar_gemini w d = Return v \<Longrightarrow> is_str v"
  by (auto simp add: solicitar_gemini_def manejar_error_solicitud_def is_str_def
        split: sum.splits option.splits if_splits)

lemma solicitar_gemini_Normal:
  "solicitar_gemini w d = Normal rj \<Longrightarrow>
     \<exists>r. requests_post w d = Inr r \<and> raise_for_status r = None \<and> json_body r = Inr rj"
  by (auto simp add: solicitar_gemini_def manejar_error_solicitud_def
        split: sum.splits option.splits if_splits)

lemma cuerpo_no_str:
  assumes "fst (cuerpo w k p q) = Inr v" and "\<not> is_str v"
  shows "\<exists>doc r rj. obtiene_respuesta w k p q doc r \<and> raise_for_status r = None
           \<and> json_body r = Inr rj \<and> extraer_respuesta rj = Inr v"
proof (cases "fitz_open w p")
  case (Inl e)
  then show ?thesis
    using assms by (auto simp add: cuerpo_def abrir_pdf_def is_str_def split: if_splits)
next
  case (Inr doc)
  note c = cuerpo_abierto [OF Inr, of k q]
  have t: "texto_completo doc \<noteq> []"
    using assms c by (auto simp add: is_str_def)
  show ?thesis
  proof (cases "solicitar_gemini w (data_de k q doc)")
    case (Normal rj)
    then have "fst (procesar_respuesta w rj) = Inr v" using assms(1) c t by simp
    then have e: "extraer_respuesta rj = Inr v" using assms(2) by (rule procesar_respuesta_no_str)
    obtain r where "requests_post w (data_de k q doc) = Inr r" and "raise_for_status r = None"
      and "json_body r = Inr rj"
      using solicitar_gemini_Normal [OF Normal] by blast
    then show ?thesis using Inr t e by (auto simp add: obtiene_respuesta_def)
  next
    case (Return u)
    then show ?thesis using assms c t solicitar_gemini_Return_str [OF Return] by simp
  next
    case (Raise e)
    then show ?thesis using assms c t by simp
  qed
qed

subsection \<open>The concrete runs\<close>

lemma paginas_una_pagina: "paginas una_pagina 0 [] [] = ([''Ativo total 100''], [])"
  by (simp add: una_pagina_def pagina_con_texto_def pagina_def)

lemma texto_una_pagina: "texto_completo una_pagina = ''Ativo total 100''"
  by (simp add: texto_completo_def textos_por_pagina_def paginas_una_pagina)

lemma obtiene_una_pagina: "obtiene_respuesta (mundo una_pagina (Inr r)) k p q una_pagina r"
  by (simp add: obtiene_respuesta_def mundo_def texto_una_pagina)

section \<open>The claims\<close>

text \<open>C1. Whenever the document was opened and the list of page texts is empty, the function
  returns the fixed warning that no text could be extracted from any page, and no request
  is posted to Gemini. In every run, a request is posted only when the document was
  opened and the aggregated text is not empty.\<close>

theorem C1_sin_texto_no_llama_a_gemini:
  "(fitz_open w p = Inr doc \<and> textos_por_pagina doc = [] \<longrightarrow>
      resultado w k p q = Inr (JStr sin_texto) \<and> \<not> list_ex is_post (traza w k p q))
   \<and> (list_ex is_post (traza w k p q) \<longrightarrow>
      (\<exists>d. fitz_open w p = Inr d \<and> textos_por_pagina d \<noteq> [] \<and> texto_completo d \<noteq> []))"
proof (cases "fitz_open w p")
  case (Inl e)
  then show ?thesis using traza_sin_abrir [OF Inl, of k q] by simp
next
  case (Inr d)
  show ?thesis using abierto_sin_texto_o_llamada [OF Inr, of k q] Inr by (auto split: if_splits)
qed

theorem C1_sin_texto_no_llama_a_gemini_witness:
  "resultado (mundo [] (Inl (Exn OtherException []))) [] ''orestes.pdf'' [] = Inr (JStr sin_texto)
   \<and> \<not> list_ex is_post (traza (mundo [] (Inl (Exn OtherException []))) [] ''orestes.pdf'' [])
   \<and> list_ex is_post (traza (mundo una_pagina (Inl (Exn OtherException []))) [] ''orestes.pdf'' [])
   \<and> texto_completo una_pagina \<noteq> []"
proof -
  have a: "fitz_open (mundo [] (Inl (Exn OtherException []))) ''orestes.pdf'' = Inr []
           \<and> textos_por_pagina [] = []"
    by (simp add: mundo_def textos_por_pagina_def)
  have b: "list_ex is_post (traza (mundo una_pagina (Inl (Exn OtherException []))) [] ''orestes.pdf'' [])"
    by (simp add: traza_cuerpo cuerpo_def abrir_pdf_def mundo_def paginas_una_pagina
          solicitar_gemini_def manejar_error_solicitud_def is_RequestException_def is_post_def)
  have c: "fitz_open (mundo una_pagina (Inl (Exn OtherException []))) ''orestes.pdf'' = Inr d \<Longrightarrow> d = una_pagina" for d
    by (simp add: mundo_def)
  show ?thesis
    using C1_sin_texto_no_llama_a_gemini [of "mundo [] (Inl (Exn OtherException []))" "''orestes.pdf''" "[]" "[]" "[]"]
      C1_sin_texto_no_llama_a_gemini [of "mundo una_pagina (Inl (Exn OtherException []))" "''orestes.pdf''" "[]" "[]" "[]"]
      a b c by auto
qed

text \<open>C2. When the answer of Gemini is a JSON object whose \<open>candidates\<close> is a non-empty list,
  whose first candidate has a \<open>content\<close> object with a non-empty \<open>parts\<close> list, and
  whose first part has a \<open>text\<close> field, the function returns the value of that field
  as it is.\<close>

theorem C2_texto_sin_modificar:
  assumes "obtiene_respuesta w k p q doc r" and "raise_for_status r = None"
    and "json_body r = Inr (JObj kvs)"
    and "map_of kvs ''candidates'' = Some (JArr (JObj c0 # cs))"
    and "map_of c0 ''content'' = Some (JObj content)"
    and "map_of content ''parts'' = Some (JArr (JObj p0 # ps))"
    and "map_of p0 ''text'' = Some t"
  shows "resultado w k p q = Inr t"
proof -
  have "extraer_respuesta (JObj kvs) = Inr t"
    using assms(4-7) by (simp add: extraer_respuesta_def)
  then show ?thesis
    using resultado_respuesta [OF assms(1-3)] by simp
qed

theorem C2_texto_sin_modificar_witness:
  "obtiene_respuesta (mundo una_pagina (Inr (respuesta_200 (respuesta_con_parte (JObj [(''text'', JStr ''100'')])))))
     [] ''orestes.pdf'' [] una_pagina (respuesta_200 (respuesta_con_parte (JObj [(''text'', JStr ''100'')])))
   \<and> resultado (mundo una_pagina (Inr (respuesta_200 (respuesta_con_parte (JObj [(''text'', JStr ''100'')])))))
     [] ''orestes.pdf'' [] = Inr (JStr ''100'')"
  using C2_texto_sin_modificar [OF obtiene_una_pagina,
      of "respuesta_200 (respuesta_con_parte (JObj [(''text'', JStr ''100'')]))"
         "[(''candidates'', JArr [JObj [(''content'', JObj [(''parts'', JArr [JObj [(''text'', JStr ''100'')]])])]])]"
         "[(''content'', JObj [(''parts'', JArr [JObj [(''text'', JStr ''100'')]])])]" "[]"
         "[(''parts'', JArr [JObj [(''text'', JStr ''100'')]])]" "[(''text'', JStr ''100'')]" "[]" "JStr ''100''"
         "[]" "''orestes.pdf''" "[]"]
    obtiene_una_pagina
  by (simp add: respuesta_200_def respuesta_con_parte_def)

text \<open>C3. When every page of the document yields a non-empty OCR text, \<open>T1\<close> to \<open>Tn\<close>,
  the list of page texts is \<open>T1, ..., Tn\<close> in page order, the aggregated text is
  \<open>T1 + "\n\n" + T2 + ... + "\n\n" + Tn\<close>, and for \<open>n > 0\<close> the request posted to
  Gemini carries the prompt followed by that text.\<close>

theorem C3_texto_agregado:
  assumes "\<forall>t \<in> set ts. t \<noteq> []"
  shows "textos_por_pagina (map pagina_con_texto ts) = ts
       \<and> texto_completo (map pagina_con_texto ts) = texto_agregado_spec ts
       \<and> (ts \<noteq> [] \<and> fitz_open w p = Inr (map pagina_con_texto ts) \<longrightarrow>
            HttpPost \<lparr>req_url = GEMINI_API_URL, req_key = k, req_text = q @ texto_agregado_spec ts\<rparr>
              \<in> set (traza w k p q))"
proof -
  have a: "textos_por_pagina (map pagina_con_texto ts) = ts"
    using paginas_con_texto [OF assms, of 0 "[]" "[]"] by (simp add: textos_por_pagina_def)
  have b: "texto_completo (map pagina_con_texto ts) = texto_agregado_spec ts"
    using a by (simp add: texto_completo_def texto_agregado_spec_join)
  have c: "HttpPost \<lparr>req_url = GEMINI_API_URL, req_key = k, req_text = q @ texto_agregado_spec ts\<rparr>
              \<in> set (traza w k p q)"
    if n: "ts \<noteq> []" and o: "fitz_open w p = Inr (map pagina_con_texto ts)"
  proof -
    have "texto_completo (map pagina_con_texto ts) \<noteq> []"
      using a n by (simp add: texto_completo_vacio)
    then have "HttpPost (data_de k q (map pagina_con_texto ts)) \<in> set (snd (cuerpo w k p q))"
      using cuerpo_abierto [OF o, of k q] by (simp split: flow.splits)
    then show ?thesis by (simp add: traza_cuerpo data_de_def b)
  qed
  show ?thesis using a b c by blast
qed

theorem C3_texto_agregado_witness:
  "''Balance'' \<noteq> [] \<and> ''Ativo total 100'' \<noteq> []
   \<and> texto_completo (map pagina_con_texto [''Balance'', ''Ativo total 100''])
       = ''Balance'' @ nl @ nl @ ''Ativo total 100''
   \<and> HttpPost \<lparr>req_url = GEMINI_API_URL, req_key = ''k'',
                 req_text = ''Extrae: '' @ ''Balance'' @ nl @ nl @ ''Ativo total 100''\<rparr>
       \<in> set (traza (mundo (map pagina_con_texto [''Balance'', ''Ativo total 100'']) (Inl (Exn OtherException [])))
                 ''k'' ''orestes.pdf'' ''Extrae: '')"
  using C3_texto_agregado [of "[''Balance'', ''Ativo total 100'']"
      "mundo (map pagina_con_texto [''Balance'', ''Ativo total 100'']) (Inl (Exn OtherException []))"
      "''orestes.pdf''" "''k''" "''Extrae: ''"]
  by (simp add: texto_agregado_spec_def mundo_def)

text \<open>C4. The claim: when \<open>requests.post\<close> raises a transport error, so that no response
  object exists, the function returns the request-error message with the network
  exception only (line 100). The code does not: \<open>response_gemini\<close> was never assigned,
  so reading it on line 94 raises \<open>UnboundLocalError\<close> inside the handler, and the
  function returns the general error of line 118 with the message of that
  \<open>UnboundLocalError\<close>; the network exception is lost. Here \<open>requests.post\<close> raises a
  \<open>ConnectionError\<close> with the message \<open>Connection refused\<close>.\<close>

theorem C4_error_de_transporte:
  "resultado (mundo una_pagina (Inl (Exn RequestException ''Connection refused''))) [] ''orestes.pdf'' []
     = Inr (JStr (''Error general al procesar el PDF: '' @ unbound_msg))
   \<and> resultado (mundo una_pagina (Inl (Exn RequestException ''Connection refused''))) [] ''orestes.pdf'' []
     \<noteq> Inr (JStr ''Error en la solicitud a la API de Gemini: Connection refused'')"
  by (simp add: resultado_cuerpo cuerpo_def abrir_pdf_def mundo_def paginas_una_pagina
        solicitar_gemini_def manejar_error_solicitud_def is_RequestException_def)

text \<open>C5. When the answer of Gemini is a JSON object without the key \<open>candidates\<close>, the
  function returns the error string that says the answer has no \<open>candidates\<close>.\<close>

theorem C5_sin_candidates:
  assumes "obtiene_respuesta w k p q doc r" and "raise_for_status r = None"
    and "json_body r = Inr (JObj kvs)"
    and "map_of kvs ''candidates'' = None"
  shows "resultado w k p q = Inr (JStr sin_candidates)"
proof -
  have "extraer_respuesta (JObj kvs) = Inr (JStr sin_candidates)"
    using assms(4) by (simp add: extraer_respuesta_def sin_candidates_def)
  then show ?thesis
    using resultado_respuesta [OF assms(1-3)] by simp
qed

theorem C5_sin_candidates_witness:
  "obtiene_respuesta (mundo una_pagina (Inr (respuesta_200 (JObj [(''error'', JStr ''x'')]))))
     [] ''orestes.pdf'' [] una_pagina (respuesta_200 (JObj [(''error'', JStr ''x'')]))
   \<and> resultado (mundo una_pagina (Inr (respuesta_200 (JObj [(''error'', JStr ''x'')]))))
     [] ''orestes.pdf'' [] = Inr (JStr sin_candidates)"
  using C5_sin_candidates [OF obtiene_una_pagina,
      of "respuesta_200 (JObj [(''error'', JStr ''x'')])" "[(''error'', JStr ''x'')]"
         "[]" "''orestes.pdf''" "[]"]
    obtiene_una_pagina
  by (simp add: respuesta_200_def)

text \<open>C6, as stated, fails: in the answer \<open>{"candidates": [{"finishReason": "SAFETY"}]}\<close>
  the list \<open>candidates\<close> is present and not empty and the first candidate has no
  \<open>parts\<close>, since it has no \<open>content\<close> at all. Line 106 then raises \<open>KeyError\<close>,
  which the handler of line 113 turns into the dump of the whole answer, not into the
  string that says the answer has no \<open>parts\<close>.\<close>

theorem C6_sin_content_counterexample:
  "resultado (mundo una_pagina (Inr (respuesta_200 respuesta_sin_content))) [] ''orestes.pdf'' []
     = Inr (JStr (''Respuesta completa de Gemini (para depuraci'' @ o_acute @ ''n):'' @ nl @ ''<json>''))
   \<and> resultado (mundo una_pagina (Inr (respuesta_200 respuesta_sin_content))) [] ''orestes.pdf'' []
     \<noteq> Inr (JStr sin_parts)"
proof -
  have e: "extraer_respuesta respuesta_sin_content = Inl (Exn KeyError (quote @ ''content'' @ quote))"
    by (simp add: extraer_respuesta_def respuesta_sin_content_def)
  have "resultado (mundo una_pagina (Inr (respuesta_200 respuesta_sin_content))) [] ''orestes.pdf'' []
     = Inr (JStr (''Respuesta completa de Gemini (para depuraci'' @ o_acute @ ''n):'' @ nl @ ''<json>''))"
    using resultado_respuesta [OF obtiene_una_pagina, of "respuesta_200 respuesta_sin_content"
        respuesta_sin_content "[]" "''orestes.pdf''" "[]"] e
    by (simp add: respuesta_200_def is_shape_error_def mundo_def)
  then show ?thesis by (simp add: sin_parts_def)
qed

text \<open>C6, amended. When \<open>candidates\<close> is a non-empty list whose first element has a
  \<open>content\<close> object, and \<open>parts\<close> is missing from that object, the function returns
  the error string that says the answer has no \<open>parts\<close>.\<close>

theorem C6_sin_parts:
  assumes "obtiene_respuesta w k p q doc r" and "raise_for_status r = None"
    and "json_body r = Inr (JObj kvs)"
    and "map_of kvs ''candidates'' = Some (JArr (JObj c0 # cs))"
    and "map_of c0 ''content'' = Some (JObj content)"
    and "map_of content ''parts'' = None"
  shows "resultado w k p q = Inr (JStr sin_parts)"
proof -
  have "extraer_respuesta (JObj kvs) = Inr (JStr sin_parts)"
    using assms(4-6) by (simp add: extraer_respuesta_def sin_parts_def)
  then show ?thesis
    using resultado_respuesta [OF assms(1-3)] by simp
qed

theorem C6_sin_parts_witness:
  "obtiene_respuesta (mundo una_pagina (Inr (respuesta_200 (JObj [(''candidates'', JArr [JObj [(''content'', JObj [])]])]))))
     [] ''orestes.pdf'' [] una_pagina (respuesta_200 (JObj [(''candidates'', JArr [JObj [(''content'', JObj [])]])]))
   \<and> resultado (mundo una_pagina (Inr (respuesta_200 (JObj [(''candidates'', JArr [JObj [(''content'', JObj [])]])]))))
     [] ''orestes.pdf'' [] = Inr (JStr sin_parts)"
  using C6_sin_parts [OF obtiene_una_pagina,
      of "respuesta_200 (JObj [(''candidates'', JArr [JObj [(''content'', JObj [])]])])"
         "[(''candidates'', JArr [JObj [(''content'', JObj [])]])]" "[(''content'', JObj [])]" "[]" "[]"
         "[]" "''orestes.pdf''" "[]"]
    obtiene_una_pagina
  by (simp add: respuesta_200_def)



text \<open>C8. When Vision reports an error message for page \<open>i\<close>, the loop leaves the list of
  texts as the pages before \<open>i\<close> made it, prints the warning for page \<open>i + 1\<close> (pages
  are printed from 1) and goes on with the page after \<open>i\<close>. The list of page texts is
  that of the pages before \<open>i\<close> followed by that of the pages after \<open>i\<close>, and the
  aggregated text is their join: nothing of page \<open>i\<close> is in it.\<close>

theorem C8_pagina_con_error_omitida:
  assumes "i < length doc" and "doc ! i = PageAnswer rv" and "error_message rv \<noteq> []"
  shows "paginas doc 0 [] [] =
           (case paginas (take i doc) 0 [] [] of
              (ts, tr) \<Rightarrow>
                paginas (drop (Suc i) doc) (Suc i) ts
                  (tr @ [Print (''Advertencia: Error en OCR de la p'' @ a_acute @ ''gina '' @ str_nat (i + 1)
                                @ '': '' @ error_message rv)]))
       \<and> textos_por_pagina doc = textos_por_pagina (take i doc) @ textos_por_pagina (drop (Suc i) doc)
       \<and> texto_completo doc =
           join_str (nl @ nl) (textos_por_pagina (take i doc) @ textos_por_pagina (drop (Suc i) doc))"
proof -
  have d: "doc = take i doc @ (PageAnswer rv # drop (Suc i) doc)"
    using assms(1,2) id_take_nth_drop [of i doc] by simp
  have l: "length (take i doc) = i" using assms(1) by simp
  obtain ts tr where t: "paginas (take i doc) 0 [] [] = (ts, tr)"
    by (cases "paginas (take i doc) 0 [] []")
  have pg: "pagina (PageAnswer rv) i ts =
              (ts, [Print (''Advertencia: Error en OCR de la p'' @ a_acute @ ''gina '' @ str_nat (i + 1)
                           @ '': '' @ error_message rv)])"
    using assms(3) by (simp add: pagina_def)
  have "paginas (take i doc @ (PageAnswer rv # drop (Suc i) doc)) 0 [] [] =
          paginas (PageAnswer rv # drop (Suc i) doc) i ts tr"
    using paginas_append [of "take i doc" "PageAnswer rv # drop (Suc i) doc" 0 "[]" "[]"] t l by simp
  then have a: "paginas doc 0 [] [] =
          paginas (drop (Suc i) doc) (Suc i) ts
            (tr @ [Print (''Advertencia: Error en OCR de la p'' @ a_acute @ ''gina '' @ str_nat (i + 1)
                          @ '': '' @ error_message rv)])"
    using d pg by simp
  have "fst (paginas doc 0 [] []) = ts @ fst (paginas (drop (Suc i) doc) 0 [] [])"
    using a paginas_fst [of "drop (Suc i) doc" "Suc i" ts _ 0 "[]"] by simp
  then have b: "textos_por_pagina doc = textos_por_pagina (take i doc) @ textos_por_pagina (drop (Suc i) doc)"
    using t by (simp add: textos_por_pagina_def)
  show ?thesis using a b t by (simp add: texto_completo_def)
qed

theorem C8_pagina_con_error_omitida_witness:
  "1 < length tres_paginas
   \<and> tres_paginas ! 1 = PageAnswer \<lparr>error_message = ''quota'', full_text_annotation = None\<rparr>
   \<and> textos_por_pagina tres_paginas = [''Balance'', ''Ativo total 100'']
   \<and> texto_completo tres_paginas = ''Balance'' @ nl @ nl @ ''Ativo total 100''"
proof -
  have a: "1 < length tres_paginas"
    and b: "tres_paginas ! 1 = PageAnswer \<lparr>error_message = ''quota'', full_text_annotation = None\<rparr>"
    by (simp_all add: tres_paginas_def pagina_con_error_def)
  have c: "error_message \<lparr>error_message = ''quota'', full_text_annotation = None\<rparr> \<noteq> []" by simp
  have t: "textos_por_pagina (take 1 tres_paginas) = [''Balance'']"
    by (simp add: tres_paginas_def textos_por_pagina_def pagina_def pagina_con_texto_def)
  have d: "textos_por_pagina (drop (Suc 1) tres_paginas) = [''Ativo total 100'']"
    by (simp add: tres_paginas_def textos_por_pagina_def pagina_def pagina_con_texto_def)
  show ?thesis
    using C8_pagina_con_error_omitida [OF a b c] a b t d by simp
qed

text \<open>C9, as stated, fails in its last part: the function does not always return a string.
  Line 108 returns the value stored under \<open>text\<close> in the first part whatever its type;
  for the answer \<open>{"candidates": [{"content": {"parts": [{"text": 5}]}}]}\<close> the function
  returns the integer 5.\<close>

theorem C9_texto_no_str_counterexample:
  "resultado (mundo una_pagina (Inr (respuesta_200 (respuesta_con_parte (JObj [(''text'', JInt 5)])))))
     [] ''orestes.pdf'' [] = Inr (JInt 5)
   \<and> \<not> is_str (JInt 5)"
proof -
  have e: "extraer_respuesta (respuesta_con_parte (JObj [(''text'', JInt 5)])) = Inr (JInt 5)"
    by (simp add: extraer_respuesta_def respuesta_con_parte_def)
  show ?thesis
    using resultado_respuesta [OF obtiene_una_pagina,
        of "respuesta_200 (respuesta_con_parte (JObj [(''text'', JInt 5)]))"
           "respuesta_con_parte (JObj [(''text'', JInt 5)])" "[]" "''orestes.pdf''" "[]"] e
    by (simp add: respuesta_200_def is_str_def)
qed

text \<open>C9, amended. The function never lets an exception reach its caller: it always returns a
  value, and when an exception leaves the body of the outer \<open>try\<close>, that value is the
  general error string with the message of the exception. The value returned is a string,
  except when it is the \<open>text\<close> value of the first part of the first candidate of the
  answer (line 108), which is returned as it is.\<close>

theorem C9_nunca_propaga:
  "\<exists>v. resultado w k p q = Inr v
     \<and> (\<forall>e. fst (cuerpo w k p q) = Inl e \<longrightarrow> v = JStr (''Error general al procesar el PDF: '' @ exn_msg e))
     \<and> (\<not> is_str v \<longrightarrow>
          (\<exists>doc r kvs c0 cs content p0 ps.
             obtiene_respuesta w k p q doc r \<and> raise_for_status r = None \<and> json_body r = Inr (JObj kvs)
           \<and> map_of kvs ''candidates'' = Some (JArr (JObj c0 # cs))
           \<and> map_of c0 ''content'' = Some (JObj content)
           \<and> map_of content ''parts'' = Some (JArr (JObj p0 # ps))
           \<and> map_of p0 ''text'' = Some v))"
proof (cases "fst (cuerpo w k p q)")
  case (Inl e)
  then show ?thesis by (simp add: resultado_cuerpo is_str_def)
next
  case (Inr v)
  have "\<exists>doc r kvs c0 cs content p0 ps.
             obtiene_respuesta w k p q doc r \<and> raise_for_status r = None \<and> json_body r = Inr (JObj kvs)
           \<and> map_of kvs ''candidates'' = Some (JArr (JObj c0 # cs))
           \<and> map_of c0 ''content'' = Some (JObj content)
           \<and> map_of content ''parts'' = Some (JArr (JObj p0 # ps))
           \<and> map_of p0 ''text'' = Some v" if n: "\<not> is_str v"
  proof -
    obtain doc r rj where o: "obtiene_respuesta w k p q doc r" and s: "raise_for_status r = None"
      and j: "json_body r = Inr rj" and e: "extraer_respuesta rj = Inr v"
      using cuerpo_no_str [OF Inr n] by blast
    show ?thesis using extraer_no_str [OF e n] o s j by blast
  qed
  then show ?thesis using Inr by (simp add: resultado_cuerpo)
qed

theorem C9_nunca_propaga_witness:
  "fst (cuerpo (mundo una_pagina (Inl (Exn RequestException ''Connection refused''))) [] ''orestes.pdf'' [])
     = Inl (Exn UnboundLocalError unbound_msg)
   \<and> resultado (mundo una_pagina (Inl (Exn RequestException ''Connection refused''))) [] ''orestes.pdf'' []
     = Inr (JStr (''Error general al procesar el PDF: '' @ unbound_msg))"
proof -
  have a: "fst (cuerpo (mundo una_pagina (Inl (Exn RequestException ''Connection refused''))) [] ''orestes.pdf'' [])
     = Inl (Exn UnboundLocalError unbound_msg)"
    by (simp add: cuerpo_def abrir_pdf_def mundo_def paginas_una_pagina
        solicitar_gemini_def manejar_error_solicitud_def is_RequestException_def)
  show ?thesis
    using C9_nunca_propaga [of "mundo una_pagina (Inl (Exn RequestException ''Connection refused''))"
        "[]" "''orestes.pdf''" "[]"] a
    by auto
qed

text \<open>C10. When the first candidate of the answer has a \<open>content\<close> object with a non-empty
  \<open>parts\<close> list and the first part is an object without a \<open>text\<close> field, the function
  returns the fixed string \<open>Respuesta de Gemini sin texto.\<close>; it does not raise, and it
  returns none of the strings for a missing level.\<close>

theorem C10_sin_text:
  assumes "obtiene_respuesta w k p q doc r" and "raise_for_status r = None"
    and "json_body r = Inr (JObj kvs)"
    and "map_of kvs ''candidates'' = Some (JArr (JObj c0 # cs))"
    and "map_of c0 ''content'' = Some (JObj content)"
    and "map_of content ''parts'' = Some (JArr (JObj p0 # ps))"
    and "map_of p0 ''text'' = None"
  shows "resultado w k p q = Inr (JStr ''Respuesta de Gemini sin texto.'')
       \<and> resultado w k p q \<noteq> Inr (JStr sin_parts)
       \<and> resultado w k p q \<noteq> Inr (JStr sin_candidates)"
proof -
  have "extraer_respuesta (JObj kvs) = Inr (JStr ''Respuesta de Gemini sin texto.'')"
    using assms(4-7) by (simp add: extraer_respuesta_def)
  then have "resultado w k p q = Inr (JStr ''Respuesta de Gemini sin texto.'')"
    using resultado_respuesta [OF assms(1-3)] by simp
  then show ?thesis by (simp add: sin_parts_def sin_candidates_def)
qed

theorem C10_sin_text_witness:
  "obtiene_respuesta (mundo una_pagina (Inr (respuesta_200 (respuesta_con_parte (JObj [])))))
     [] ''orestes.pdf'' [] una_pagina (respuesta_200 (respuesta_con_parte (JObj [])))
   \<and> resultado (mundo una_pagina (Inr (respuesta_200 (respuesta_con_parte (JObj [])))))
     [] ''orestes.pdf'' [] = Inr (JStr ''Respuesta de Gemini sin texto.'')"
  using C10_sin_text [OF obtiene_una_pagina,
      of "respuesta_200 (respuesta_con_parte (JObj []))"
         "[(''candidates'', JArr [JObj [(''content'', JObj [(''parts'', JArr [JObj []])])]])]"
         "[(''content'', JObj [(''parts'', JArr [JObj []])])]" "[]"
         "[(''parts'', JArr [JObj []])]" "[]" "[]"
         "[]" "''orestes.pdf''" "[]"]
    obtiene_una_pagina
  by (simp add: respuesta_200_def respuesta_con_parte_def)

end
